theory Spec2Isabelle
  imports Complex_Main
begin

section \<open>Python values and exceptions\<close>

text \<open>
  The exceptions that the modelled code can raise.  A function that may raise returns
  \<open>error + 'a\<close>, with \<open>Inl\<close> carrying the exception.
\<close>

datatype error =
    TypeError
  | ValueError
  | AttributeError
  | ZeroDivisionError
  | FloatingPointError

text \<open>Python's \<open>int(x)\<close> on a number truncates towards zero.\<close>

definition py_int :: "real \<Rightarrow> int" where
  "py_int x = (if 0 \<le> x then \<lfloor>x\<rfloor> else \<lceil>x\<rceil>)"

text \<open>
  Python's slice \<open>xs[a:b]\<close>: a negative bound counts from the end, and every bound is
  clipped to the length of the list.
\<close>

definition slice_index :: "nat \<Rightarrow> int \<Rightarrow> nat" where
  "slice_index n i = (if i < 0 then nat (max 0 (int n + i)) else min n (nat i))"

definition py_slice :: "'a list \<Rightarrow> int \<Rightarrow> int \<Rightarrow> 'a list" where
  "py_slice xs a b =
     (let lo = slice_index (length xs) a; hi = slice_index (length xs) b
      in take (hi - lo) (drop lo xs))"

section \<open>rtmaii/analysis/frequency.py\<close>

text \<open>
  \<open>remove_noise(spectrum, noise_level)\<close>:
  \<^verbatim>\<open>list(map(lambda amp: 0 if amp < noise_level else amp, spectrum))\<close>
\<close>

definition remove_noise :: "real list \<Rightarrow> real \<Rightarrow> real list" where
  "remove_noise spectrum noise_level =
     map (\<lambda>amp. if amp < noise_level then 0 else amp) spectrum"

text \<open>
  \<open>frequency_bands(spectrum, bands)\<close>: the dictionary \<open>bands\<close> maps a label to a pair
  \<open>values\<close>; the result maps every label to
  \<^verbatim>\<open>sum(filtered_spectrum[int(values[0]):int(values[1])])\<close>.
\<close>

definition frequency_bands ::
  "real list \<Rightarrow> ('k \<rightharpoonup> real \<times> real) \<Rightarrow> ('k \<rightharpoonup> real)" where
  "frequency_bands spectrum bands =
     (let filtered_spectrum = remove_noise spectrum 0.5
      in (\<lambda>band. case bands band of
            None \<Rightarrow> None
          | Some values \<Rightarrow>
              Some (sum_list (py_slice filtered_spectrum
                                (py_int (fst values)) (py_int (snd values))))))"




section \<open>rtmaii/analysis/spectral.py\<close>

subsection \<open>Library routines the module calls\<close>

text \<open>
  \<open>scipy.signal.fftconvolve(in1, in2, mode='full')\<close> returns the linear convolution of
  its arguments, \<open>length in1 + length in2 - 1\<close> values, and an empty array when either
  argument is empty.  The model computes the convolution directly, one input sample
  at a time.
\<close>

fun add_padded :: "real list \<Rightarrow> real list \<Rightarrow> real list" where
  "add_padded [] ys = ys"
| "add_padded xs [] = xs"
| "add_padded (x # xs) (y # ys) = (x + y) # add_padded xs ys"

fun fftconvolve :: "real list \<Rightarrow> real list \<Rightarrow> real list" where
  "fftconvolve [] in2 = []"
| "fftconvolve (x # in1) in2 =
     (if in2 = [] then []
      else add_padded (map ((*) x) in2) (0 # fftconvolve in1 in2))"

text \<open>
  \<open>scipy.fftpack.fft(x)\<close> is the discrete Fourier transform, as long as its input.  For
  an input of \<open>n < 1\<close> data points it raises \<open>ValueError\<close> (``Invalid number of FFT data
  points (0) specified'').
\<close>

definition fft :: "complex list \<Rightarrow> error + complex list" where
  "fft x =
     (if length x < 1 then Inl ValueError
      else Inr (map (\<lambda>k. \<Sum>n = 0..<length x.
                      x ! n * cis (- 2 * pi * real k * real n / real (length x)))
                  [0..<length x]))"

text \<open>
  \<open>signal * window\<close> on NumPy arrays multiplies element by element; an array of one
  element is broadcast over the other, and any other difference in length raises
  \<open>ValueError\<close>.
\<close>

definition np_multiply :: "real list \<Rightarrow> real list \<Rightarrow> error + real list" where
  "np_multiply xs ys =
     (if length xs = length ys then Inr (map2 (*) xs ys)
      else if length xs = 1 then Inr (map ((*) (hd xs)) ys)
      else if length ys = 1 then Inr (map (\<lambda>x. x * hd ys) xs)
      else Inl ValueError)"

text \<open>
  \<open>scipy.signal.lfilter(b, a, x)\<close> runs the difference equation
  \<open>a[0]*y[n] = b[0]*x[n] + ... + b[M]*x[n-M] - a[1]*y[n-1] - ... - a[N]*y[n-N]\<close>
  over \<open>x\<close>, and rejects empty coefficients and \<open>a[0] = 0\<close>.  \<open>past_x\<close> and \<open>past_y\<close>
  hold the samples seen and produced so far, newest first.
\<close>

fun lfilter_steps ::
  "real list \<Rightarrow> real list \<Rightarrow> real list \<Rightarrow> real list \<Rightarrow> real list \<Rightarrow> real list" where
  "lfilter_steps b a past_x past_y [] = []"
| "lfilter_steps b a past_x past_y (x # xs) =
     (let y = (sum_list (map2 (*) b (x # past_x)) - sum_list (map2 (*) (tl a) past_y)) / hd a
      in y # lfilter_steps b a (x # past_x) (y # past_y) xs)"

definition lfilter :: "real list \<Rightarrow> real list \<Rightarrow> real list \<Rightarrow> error + real list" where
  "lfilter b a x =
     (if b = [] \<or> a = [] then Inl ValueError
      else if hd a = 0 then Inl ValueError
      else Inr (lfilter_steps b a [] [] x))"

subsection \<open>Band-pass filter\<close>

text \<open>The dictionary \<open>{'numerator': ..., 'denominator': ...}\<close>.\<close>

record bp_filter =
  numerator :: "real list"
  denominator :: "real list"


text \<open>
  The invariant of filter coefficients: neither sequence is empty and the leading
  coefficient of the denominator is not zero.
\<close>

definition well_formed :: "bp_filter \<Rightarrow> bool" where
  "well_formed f = (numerator f \<noteq> [] \<and> denominator f \<noteq> [] \<and> hd (denominator f) \<noteq> 0)"

definition band_pass_filter ::
  "real list \<Rightarrow> real list \<Rightarrow> real list \<Rightarrow> error + real list" where
  "band_pass_filter signal num den = lfilter num den signal"

subsection \<open>Convolution and spectrum\<close>

text \<open>
  \<open>convolve_signal(signal)\<close>:
  \<^verbatim>\<open>convol = fftconvolve(signal, signal[::-1], mode='full')\<close>,
  \<^verbatim>\<open>return convol[len(convol) // 2:]\<close>.
\<close>

definition convolve_signal :: "real list \<Rightarrow> real list" where
  "convolve_signal signal =
     (let convol = fftconvolve signal (rev signal)
      in drop (length convol div 2) convol)"

text \<open>
  \<open>spectrum_transform(signal)\<close>:
  \<^verbatim>\<open>normalized_spectrum = fft(signal) / signal_length\<close>,
  \<^verbatim>\<open>return normalized_spectrum[:signal_length // 2]\<close>.
\<close>

definition spectrum_transform :: "complex list \<Rightarrow> error + complex list" where
  "spectrum_transform signal =
     (let signal_length = length signal
      in case fft signal of
           Inl e \<Rightarrow> Inl e
         | Inr transformed \<Rightarrow>
             (let normalized_spectrum = map (\<lambda>v. v / of_nat signal_length) transformed
              in Inr (take (signal_length div 2) normalized_spectrum)))"

text \<open>\<open>spectrum(signal, window, bp_filter=None)\<close>.\<close>

definition spectrum ::
  "real list \<Rightarrow> real list \<Rightarrow> bp_filter option \<Rightarrow> error + complex list" where
  "spectrum signal window bpf =
     (case np_multiply signal window of
        Inl e \<Rightarrow> Inl e
      | Inr windowed_signal \<Rightarrow>
          (case (case bpf of
                   None \<Rightarrow> Inr windowed_signal
                 | Some f \<Rightarrow> band_pass_filter windowed_signal (numerator f) (denominator f)) of
             Inl e \<Rightarrow> Inl e
           | Inr filtered_signal \<Rightarrow> spectrum_transform (map complex_of_real filtered_signal)))"

subsection \<open>Normalisation\<close>

text \<open>\<open>numpy.linalg.norm\<close> of a vector: the Euclidean norm.\<close>

definition linalg_norm :: "complex list \<Rightarrow> real" where
  "linalg_norm v = sqrt (\<Sum>x\<leftarrow>v. (cmod x)\<^sup>2)"

text \<open>
  \<open>normalizorFFT(fft)\<close>: the input unchanged when its norm is 0, and else every entry
  divided by the norm.
\<close>

definition normalizorFFT :: "complex list \<Rightarrow> complex list" where
  "normalizorFFT ffts =
     (let normalised_ftt = linalg_norm ffts
      in if normalised_ftt = 0 then ffts
         else map (\<lambda>x. x / complex_of_real normalised_ftt) ffts)"

subsection \<open>Decibels\<close>

text \<open>
  A NumPy float is a number, an infinity or NaN.  Rounding is not modelled: the finite
  values are real numbers.
\<close>

datatype npfloat = Finite real | PosInf | NegInf | NaN

text \<open>
  NumPy's floating-point error handling: \<open>ErrWarn\<close> is the default (a division by zero
  or an invalid operation gives a warning and an infinity or NaN), \<open>ErrRaise\<close> is
  \<open>numpy.seterr(all='raise')\<close> (it raises \<open>FloatingPointError\<close>).
\<close>

datatype errstate = ErrWarn | ErrRaise

text \<open>A finite number divided by a finite number.\<close>

definition np_divide :: "real \<Rightarrow> real \<Rightarrow> npfloat" where
  "np_divide x s =
     (if s \<noteq> 0 then Finite (x / s)
      else if x = 0 then NaN
      else if 0 < x then PosInf else NegInf)"

definition np_divide_array :: "errstate \<Rightarrow> real list \<Rightarrow> real \<Rightarrow> error + npfloat list" where
  "np_divide_array st xs s =
     (if st = ErrRaise \<and> s = 0 \<and> xs \<noteq> [] then Inl FloatingPointError
      else Inr (map (\<lambda>x. np_divide x s) xs))"

text \<open>Multiplication by a finite number.\<close>

fun np_scale :: "real \<Rightarrow> npfloat \<Rightarrow> npfloat" where
  "np_scale k (Finite x) = Finite (k * x)"
| "np_scale k PosInf = (if 0 < k then PosInf else if k < 0 then NegInf else NaN)"
| "np_scale k NegInf = (if 0 < k then NegInf else if k < 0 then PosInf else NaN)"
| "np_scale k NaN = NaN"

fun np_log10 :: "npfloat \<Rightarrow> npfloat" where
  "np_log10 (Finite x) = (if 0 < x then Finite (log 10 x) else if x = 0 then NegInf else NaN)"
| "np_log10 PosInf = PosInf"
| "np_log10 NegInf = NaN"
| "np_log10 NaN = NaN"

text \<open>Whether \<open>log10\<close> signals a division by zero or an invalid operation.\<close>

fun log10_signals :: "npfloat \<Rightarrow> bool" where
  "log10_signals (Finite x) = (x \<le> 0)"
| "log10_signals PosInf = False"
| "log10_signals NegInf = True"
| "log10_signals NaN = False"

definition np_log10_array :: "errstate \<Rightarrow> npfloat list \<Rightarrow> error + npfloat list" where
  "np_log10_array st xs =
     (if st = ErrRaise \<and> list_ex log10_signals xs then Inl FloatingPointError
      else Inr (map np_log10 xs))"

text \<open>\<open>a.clip(m)\<close>: the lower bound \<open>m\<close>; NaN stays NaN.\<close>

fun np_clip_min :: "real \<Rightarrow> npfloat \<Rightarrow> npfloat" where
  "np_clip_min m (Finite x) = Finite (max x m)"
| "np_clip_min m PosInf = PosInf"
| "np_clip_min m NegInf = Finite m"
| "np_clip_min m NaN = NaN"

text \<open>
  \<open>convertingMagnitudeToDecibel(ffts, window)\<close>.  When \<open>log10\<close> raises, the handler sets
  \<open>loggedffts = 0\<close>, and \<open>(20 * 0).clip(-120)\<close> is an attribute lookup on a Python
  \<open>int\<close>: \<open>AttributeError\<close>.
\<close>

definition convertingMagnitudeToDecibel ::
  "errstate \<Rightarrow> complex list \<Rightarrow> real list \<Rightarrow> error + npfloat list" where
  "convertingMagnitudeToDecibel st ffts window =
     (case np_divide_array st (map (\<lambda>z. cmod z * 2.0) ffts) (sum_list window) of
        Inl e \<Rightarrow> Inl e
      | Inr scaled \<Rightarrow>
          (let ffts' = map (np_scale (1 / 2.0 ^ (8 * 0))) scaled
           in case np_log10_array st ffts' of
                Inl e \<Rightarrow> Inl AttributeError
              | Inr loggedffts \<Rightarrow> Inr (map (\<lambda>v. np_clip_min (- 120) (np_scale 20 v)) loggedffts)))"

section \<open>rtmaii/worker.py\<close>

subsection \<open>Values and calls\<close>

text \<open>The Python values that reach a worker: queue items, constructor arguments, payloads.\<close>

datatype pyval =
    PNone
  | PInt int
  | PFloat real
  | PStr string
  | PTuple "pyval list"
  | PArray "complex list"
  | PReals "real list"
  | PBands "string \<rightharpoonup> real \<times> real"
  | PEnergy "string \<rightharpoonup> real"

text \<open>
  \<open>abs(x)\<close>: the absolute value of a number, the magnitudes of an array, and
  \<open>TypeError\<close> for \<open>None\<close>, strings, tuples and dictionaries.
\<close>

fun py_abs :: "pyval \<Rightarrow> error + pyval" where
  "py_abs (PInt i) = Inr (PInt \<bar>i\<bar>)"
| "py_abs (PFloat x) = Inr (PFloat \<bar>x\<bar>)"
| "py_abs (PArray zs) = Inr (PReals (map cmod zs))"
| "py_abs (PReals xs) = Inr (PReals (map abs xs))"
| "py_abs v = Inl TypeError"

text \<open>
  How Python binds the arguments of a call to the parameters of a \<open>def\<close> without
  \<open>*args\<close> or \<open>**kwargs\<close>.  A parameter is its name and its default, if it has one.
  Positional arguments fill the parameters from the left; a keyword argument must name a
  parameter that is not filled yet; a parameter left unfilled takes its default.  Too many
  positional arguments, an unexpected or repeated keyword and a missing argument are all
  \<open>TypeError\<close>.
\<close>

fun bind_positional :: "(string \<times> 'v option) list \<Rightarrow> 'v list \<Rightarrow> error + (string \<times> 'v) list" where
  "bind_positional params [] = Inr []"
| "bind_positional [] (v # vs) = Inl TypeError"
| "bind_positional ((name, dflt) # params) (v # vs) =
     (case bind_positional params vs of
        Inl e \<Rightarrow> Inl e
      | Inr bound \<Rightarrow> Inr ((name, v) # bound))"

fun bind_keywords ::
  "(string \<times> 'v option) list \<Rightarrow> (string \<times> 'v) list \<Rightarrow> (string \<times> 'v) list \<Rightarrow>
   error + (string \<times> 'v) list" where
  "bind_keywords params bound [] = Inr bound"
| "bind_keywords params bound ((name, v) # kwargs) =
     (if name \<notin> set (map fst params) then Inl TypeError
      else if name \<in> set (map fst bound) then Inl TypeError
      else bind_keywords params (bound @ [(name, v)]) kwargs)"

fun bind_defaults ::
  "(string \<times> 'v option) list \<Rightarrow> (string \<times> 'v) list \<Rightarrow> error + (string \<times> 'v) list" where
  "bind_defaults [] bound = Inr bound"
| "bind_defaults ((name, dflt) # params) bound =
     (case map_of bound name of
        Some v \<Rightarrow> bind_defaults params bound
      | None \<Rightarrow>
          (case dflt of
             None \<Rightarrow> Inl TypeError
           | Some d \<Rightarrow> bind_defaults params (bound @ [(name, d)])))"

definition py_bind ::
  "(string \<times> 'v option) list \<Rightarrow> 'v list \<Rightarrow> (string \<times> 'v) list \<Rightarrow> error + (string \<times> 'v) list" where
  "py_bind params args kwargs =
     (case bind_positional params args of
        Inl e \<Rightarrow> Inl e
      | Inr bound \<Rightarrow>
          (case bind_keywords params bound kwargs of
             Inl e \<Rightarrow> Inl e
           | Inr bound' \<Rightarrow> bind_defaults params bound'))"

subsection \<open>Construction\<close>

text \<open>
  What \<open>Worker.__init__(self, channel_id, queue_length=1)\<close> leaves in the object: the
  channel, the length of its queue, the daemon flag, and whether the thread was started.
\<close>

record worker_object =
  channel_id :: pyval
  queue_length :: pyval
  daemon :: bool
  started :: bool

definition Worker_init_params :: "(string \<times> pyval option) list" where
  "Worker_init_params = [(''channel_id'', None), (''queue_length'', Some (PInt 1))]"

definition Worker_init :: "pyval list \<Rightarrow> (string \<times> pyval) list \<Rightarrow> error + worker_object" where
  "Worker_init args kwargs =
     (case py_bind Worker_init_params args kwargs of
        Inl e \<Rightarrow> Inl e
      | Inr bound \<Rightarrow>
          (case (map_of bound ''channel_id'', map_of bound ''queue_length'') of
             (Some c, Some q) \<Rightarrow>
               Inr \<lparr>channel_id = c, queue_length = q, daemon = True, started = True\<rparr>
           | _ \<Rightarrow> Inl TypeError))"

text \<open>
  \<open>PitchWorker.__init__(self, channel_id)\<close>:
  \<^verbatim>\<open>Worker.__init__(self, args=(), kwargs=None)\<close>.
\<close>

definition PitchWorker_init :: "pyval \<Rightarrow> error + worker_object" where
  "PitchWorker_init channel = Worker_init [] [(''args'', PTuple []), (''kwargs'', PNone)]"

text \<open>The other workers: \<^verbatim>\<open>Worker.__init__(self, channel_id)\<close>.\<close>

definition Subclass_init :: "pyval \<Rightarrow> error + worker_object" where
  "Subclass_init channel = Worker_init [channel] []"

subsection \<open>The worker loops\<close>

text \<open>\<open>dispatcher.send(signal=..., sender=..., data=...)\<close>.\<close>

record event =
  signal :: string
  sender :: int
  data :: pyval

text \<open>
  The analysis modules \<open>rtmaii.analysis.pitch\<close> and \<open>rtmaii.analysis.key\<close>, and the
  NumPy and classifier code of the spectrogram worker (lines 61 to 105), are parameters:
  each takes its arguments and returns a value or raises.  \<open>convolve_spectrum\<close> is what
  the attribute \<open>spectral.convolve_spectrum\<close> would hold if the module defined it.
\<close>

record analysis =
  pitch_from_zero_crossings :: "pyval \<Rightarrow> int \<Rightarrow> error + pyval"
  pitch_from_auto_correlation :: "pyval \<Rightarrow> int \<Rightarrow> error + pyval"
  pitch_from_hps :: "pyval \<Rightarrow> int \<Rightarrow> int \<Rightarrow> error + pyval"
  pitch_from_fft :: "pyval \<Rightarrow> int \<Rightarrow> error + pyval"
  note_from_pitch :: "pyval \<Rightarrow> error + pyval"
  spectrogram_of :: "pyval \<Rightarrow> int \<Rightarrow> error + pyval"
  convolve_spectrum :: "pyval \<Rightarrow> error + pyval"

text \<open>The names that the module \<open>rtmaii.analysis.spectral\<close> defines or imports.\<close>

definition spectral_names :: "string list" where
  "spectral_names =
     [''butter'', ''lfilter'', ''fftconvolve'', ''get_window'', ''fft'', ''absolute'', ''sum'',
      ''power'', ''log10'', ''norm'', ''butter_bandpass'', ''band_pass_filter'', ''new_window'',
      ''convolve_signal'', ''spectrum_transform'', ''spectrum'', ''normalizorFFT'',
      ''convertingMagnitudeToDecibel'']"

text \<open>
  The call \<open>frequency.frequency_bands(...)\<close>: the arguments are bound to the parameters
  \<open>spectrum\<close> and \<open>bands\<close> of the definition, and the body runs on a sequence of
  magnitudes and a band dictionary.
\<close>

definition frequency_bands_params :: "(string \<times> pyval option) list" where
  "frequency_bands_params = [(''spectrum'', None), (''bands'', None)]"

definition frequency_bands_call :: "pyval list \<Rightarrow> (string \<times> pyval) list \<Rightarrow> error + pyval" where
  "frequency_bands_call args kwargs =
     (case py_bind frequency_bands_params args kwargs of
        Inl e \<Rightarrow> Inl e
      | Inr bound \<Rightarrow>
          (case (map_of bound ''spectrum'', map_of bound ''bands'') of
             (Some (PReals sp), Some (PBands b)) \<Rightarrow> Inr (PEnergy (frequency_bands sp b))
           | (Some (PReals sp), _) \<Rightarrow> Inl AttributeError
           | _ \<Rightarrow> Inl TypeError))"

text \<open>The worker classes that override \<open>run\<close>, with the arguments of their constructors.\<close>

datatype worker =
    SpectrogramWorker int int
  | BandsWorker "string \<rightharpoonup> real \<times> real" int int
  | ZeroCrossingWorker int int
  | AutoCorrelationWorker int int
  | HPSWorker int int
  | FFTWorker int int

text \<open>
  One pass through the body of a \<open>while True\<close> loop, on the item that \<open>queue.get()\<close>
  returned: the events sent, and how the pass ends.
\<close>

datatype control = Continue | Break | Raise error

text \<open>
  \<open>Key.analyse_key(pitch, channel_id)\<close> after the pitch has been sent: the key is looked
  up and sent.
\<close>

definition publish_pitch :: "analysis \<Rightarrow> int \<Rightarrow> error + pyval \<Rightarrow> event list \<times> control" where
  "publish_pitch env channel estimate =
     (case estimate of
        Inl e \<Rightarrow> ([], Raise e)
      | Inr estimated_pitch \<Rightarrow>
          (let sent = [\<lparr>signal = ''pitch'', sender = channel, data = estimated_pitch\<rparr>]
           in case note_from_pitch env estimated_pitch of
                Inl e \<Rightarrow> (sent, Raise e)
              | Inr estimated_key \<Rightarrow>
                  (sent @ [\<lparr>signal = ''key'', sender = channel, data = estimated_key\<rparr>],
                   Continue)))"

fun step :: "analysis \<Rightarrow> worker \<Rightarrow> pyval \<Rightarrow> event list \<times> control" where
  "step env (SpectrogramWorker sampling_rate channel) ffts =
     (if ffts = PNone then ([], Break)
      else case spectrogram_of env ffts sampling_rate of
             Inl e \<Rightarrow> ([], Raise e)
           | Inr spectroData \<Rightarrow>
               ([\<lparr>signal = ''spectogramData'', sender = channel, data = spectroData\<rparr>], Continue))"
| "step env (BandsWorker bands_of_interest sampling_rate channel) spectrum_item =
     (case py_abs spectrum_item of
        Inl e \<Rightarrow> ([], Raise e)
      | Inr magnitudes \<Rightarrow>
          (case frequency_bands_call
                  [magnitudes, PBands bands_of_interest, PInt sampling_rate] [] of
             Inl e \<Rightarrow> ([], Raise e)
           | Inr bands \<Rightarrow> ([\<lparr>signal = ''bands'', sender = channel, data = bands\<rparr>], Continue)))"
| "step env (ZeroCrossingWorker sampling_rate channel) signal_item =
     publish_pitch env channel (pitch_from_zero_crossings env signal_item sampling_rate)"
| "step env (AutoCorrelationWorker sampling_rate channel) signal_item =
     (if ''convolve_spectrum'' \<notin> set spectral_names then ([], Raise AttributeError)
      else case convolve_spectrum env signal_item of
             Inl e \<Rightarrow> ([], Raise e)
           | Inr convolved_spectrum \<Rightarrow>
               publish_pitch env channel
                 (pitch_from_auto_correlation env convolved_spectrum sampling_rate))"
| "step env (HPSWorker sampling_rate channel) spectrum_item =
     publish_pitch env channel (pitch_from_hps env spectrum_item sampling_rate 7)"
| "step env (FFTWorker sampling_rate channel) spectrum_item =
     publish_pitch env channel (pitch_from_fft env spectrum_item sampling_rate)"

text \<open>
  A thread is blocked in \<open>queue.get()\<close>, has left its loop, or was ended by an exception
  that left \<open>run\<close>.
\<close>

datatype status = Waiting | Exited | Crashed error

text \<open>
  \<open>run\<close> on the items that \<open>queue.get()\<close> returns, in order: the events sent and the
  status of the thread once the items are used up.
\<close>

fun run :: "analysis \<Rightarrow> worker \<Rightarrow> pyval list \<Rightarrow> event list \<times> status" where
  "run env w [] = ([], Waiting)"
| "run env w (item # items) =
     (case step env w item of
        (sent, Continue) \<Rightarrow> (case run env w items of (later, st) \<Rightarrow> (sent @ later, st))
      | (sent, Break) \<Rightarrow> (sent, Exited)
      | (sent, Raise e) \<Rightarrow> (sent, Crashed e))"

section \<open>Band analysis: which bins a band sums\<close>















section \<open>Self-convolution\<close>

lemma length_add_padded: "length (add_padded xs ys) = max (length xs) (length ys)"
  by (induction xs ys rule: add_padded.induct) auto

lemma nth_add_padded:
  "k < max (length xs) (length ys) \<Longrightarrow>
   add_padded xs ys ! k =
     (if k < length xs then xs ! k else 0) + (if k < length ys then ys ! k else 0)"
proof (induction xs ys arbitrary: k rule: add_padded.induct)
  case (3 x xs y ys)
  then show ?case by (cases k) auto
qed auto

lemma length_fftconvolve:
  "length (fftconvolve in1 in2) =
     (if in1 = [] \<or> in2 = [] then 0 else length in1 + length in2 - 1)"
proof (induction in1)
  case (Cons x in1)
  then show ?case by (cases in2) (auto simp: length_add_padded)
qed simp

lemma nth_fftconvolve:
  "k < length in1 + length in2 - 1 \<Longrightarrow> in1 \<noteq> [] \<Longrightarrow> in2 \<noteq> [] \<Longrightarrow>
   fftconvolve in1 in2 ! k =
     (\<Sum>i<length in1. if i \<le> k \<and> k - i < length in2 then in1 ! i * in2 ! (k - i) else 0)"
proof (induction in1 arbitrary: k)
  case Nil
  then show ?case by simp
next
  case (Cons x in1)
  then have in2: "in2 \<noteq> []" by simp
  let ?summand = "\<lambda>xs k i. if i \<le> k \<and> k - i < length in2 then xs ! i * in2 ! (k - i) else 0"
  have split: "(\<Sum>i<length (x # in1). ?summand (x # in1) k i) =
        ?summand (x # in1) k 0 + (\<Sum>i<length in1. ?summand (x # in1) k (Suc i))"
    unfolding length_Cons by (rule sum.lessThan_Suc_shift)
  have rest: "(if k < length (0 # fftconvolve in1 in2) then (0 # fftconvolve in1 in2) ! k else 0) =
        (\<Sum>i<length in1. ?summand (x # in1) k (Suc i))"
  proof (cases k)
    case 0
    then show ?thesis by simp
  next
    case (Suc j)
    show ?thesis
    proof (cases "in1 = []")
      case True
      then show ?thesis by simp
    next
      case False
      show ?thesis
      proof (cases "j < length in1 + length in2 - 1")
        case True
        with Cons.IH [OF True False in2] Suc False in2 show ?thesis
          by (simp add: length_fftconvolve cong: if_cong)
      next
        case False
        with Cons.prems Suc show ?thesis by simp
      qed
    qed
  qed
  have bound: "k < max (length (map ((*) x) in2)) (length (0 # fftconvolve in1 in2))"
    using Cons.prems in2 by (auto simp: length_fftconvolve)
  have "fftconvolve (x # in1) in2 ! k = add_padded (map ((*) x) in2) (0 # fftconvolve in1 in2) ! k"
    using in2 by simp
  also have "\<dots> = (if k < length (map ((*) x) in2) then map ((*) x) in2 ! k else 0) +
        (if k < length (0 # fftconvolve in1 in2) then (0 # fftconvolve in1 in2) ! k else 0)"
    by (rule nth_add_padded [OF bound])
  finally have "fftconvolve (x # in1) in2 ! k =
        (if k < length in2 then x * in2 ! k else 0) +
        (if k < length (0 # fftconvolve in1 in2) then (0 # fftconvolve in1 in2) ! k else 0)"
    by (simp cong: if_cong)
  then show ?case
    unfolding split rest by simp
qed


lemma nth_self_correlation:
  assumes "k < length sig"
  shows "fftconvolve sig (rev sig) ! (length sig - 1 + k) =
         (\<Sum>i<length sig - k. sig ! (i + k) * sig ! i)"
proof -
  let ?L = "length sig"
  from assms have ne: "sig \<noteq> []" by auto
  have "fftconvolve sig (rev sig) ! (?L - 1 + k) =
        (\<Sum>i<?L. if i \<le> ?L - 1 + k \<and> ?L - 1 + k - i < length (rev sig)
                  then sig ! i * rev sig ! (?L - 1 + k - i) else 0)"
    using assms ne by (intro nth_fftconvolve) auto
  also have "\<dots> = (\<Sum>i<?L. if k \<le> i then sig ! i * sig ! (i - k) else 0)"
  proof (rule sum.cong [OF refl])
    fix i assume "i \<in> {..<?L}"
    then have i: "i < ?L" by simp
    show "(if i \<le> ?L - 1 + k \<and> ?L - 1 + k - i < length (rev sig)
            then sig ! i * rev sig ! (?L - 1 + k - i) else 0) =
          (if k \<le> i then sig ! i * sig ! (i - k) else 0)"
    proof (cases "k \<le> i")
      case True
      with i assms have "?L - 1 + k - i < ?L" by simp
      moreover from True i assms have "?L - Suc (?L - 1 + k - i) = i - k" by simp
      moreover from i have "i \<le> ?L - 1 + k" by simp
      ultimately show ?thesis using True i by (simp add: rev_nth)
    next
      case False
      with i have "\<not> ?L - 1 + k - i < ?L" by arith
      with False show ?thesis by simp
    qed
  qed
  also have "\<dots> = (\<Sum>i\<in>{k..<?L}. sig ! i * sig ! (i - k))"
    by (rule sum.mono_neutral_cong_right) auto
  also have "\<dots> = (\<Sum>i<?L - k. sig ! (i + k) * sig ! i)"
    by (rule sum.reindex_bij_witness [where i = "\<lambda>i. i + k" and j = "\<lambda>i. i - k"]) auto
  finally show ?thesis .
qed

text \<open>
  Claim C8: for every non-empty signal of length \<open>L\<close>, the full convolution of the signal
  with its reverse has \<open>2L - 1\<close> values, \<open>convolve_signal\<close> returns it from index
  \<open>L - 1\<close> (lag zero) on, the result has \<open>L\<close> values, and its value at \<open>k\<close> is the
  correlation of the signal with itself at the non-negative lag \<open>k\<close>.
\<close>

theorem convolve_signal_half:
  assumes "sig \<noteq> []"
  shows "length (fftconvolve sig (rev sig)) = 2 * length sig - 1 \<and>
         convolve_signal sig = drop (length sig - 1) (fftconvolve sig (rev sig)) \<and>
         length (convolve_signal sig) = length sig \<and>
         (\<forall>k<length sig.
            convolve_signal sig ! k = (\<Sum>i<length sig - k. sig ! (i + k) * sig ! i))"
proof -
  let ?L = "length sig"
  from assms have pos: "0 < ?L" by simp
  have len: "length (fftconvolve sig (rev sig)) = 2 * ?L - 1"
    using assms by (simp add: length_fftconvolve)
  have half: "(2 * ?L - Suc 0) div 2 = ?L - Suc 0"
    using pos by arith
  have eq: "convolve_signal sig = drop (?L - 1) (fftconvolve sig (rev sig))"
    by (simp add: convolve_signal_def Let_def len half)
  have "length (convolve_signal sig) = ?L"
    unfolding eq using pos by (simp add: len)
  moreover have "convolve_signal sig ! k = (\<Sum>i<?L - k. sig ! (i + k) * sig ! i)"
    if "k < ?L" for k
    unfolding eq using that nth_self_correlation [OF that] by (simp add: len)
  ultimately show ?thesis using len eq by blast
qed

theorem convolve_signal_half_witness:
  "convolve_signal [1, 2, 3] = [14, 8, 3]"
proof -
  have "convolve_signal [1, 2, 3] = drop (length [1, 2, 3::real] - 1) (fftconvolve [1, 2, 3] (rev [1, 2, 3]))"
    using convolve_signal_half [of "[1, 2, 3]"] by simp
  then show ?thesis by simp
qed



section \<open>Spectrum transform\<close>

lemma length_lfilter_steps: "length (lfilter_steps b a px py x) = length x"
  by (induction x arbitrary: px py) (simp_all add: Let_def)

lemma spectrum_transform_nonempty:
  "sig \<noteq> [] \<Longrightarrow>
   \<exists>full. fft sig = Inr full \<and> length full = length sig \<and>
     spectrum_transform sig =
       Inr (take (length sig div 2) (map (\<lambda>v. v / of_nat (length sig)) full))"
  by (cases sig) (simp_all add: spectrum_transform_def fft_def Let_def)

text \<open>
  Claim C4, as stated for every length, fails at length 0: the Fourier transform rejects
  an input without data points, so neither \<open>spectrum\<close> nor \<open>spectrum_transform\<close> returns
  a sequence there.
\<close>

theorem spectrum_empty_counterexample:
  "spectrum [] [] None = Inl ValueError \<and> spectrum_transform [] = Inl ValueError"
  by (simp add: spectrum_def np_multiply_def spectrum_transform_def fft_def)

text \<open>
  Claim C4, amended: for every non-empty signal of length \<open>L\<close> with a window of length
  \<open>L\<close> (and no band-pass filter, or one with well-formed coefficients), \<open>spectrum\<close>
  returns a sequence of exactly \<open>L div 2\<close> elements; and \<open>spectrum_transform\<close> on a
  non-empty signal returns the first \<open>L div 2\<close> values of its Fourier transform divided
  by \<open>L\<close>.
\<close>

theorem spectrum_length:
  assumes "length sig = length window" and "sig \<noteq> []"
    and "case bpf of None \<Rightarrow> True | Some f \<Rightarrow> well_formed f"
  shows "(\<exists>ys. spectrum sig window bpf = Inr ys \<and> length ys = length sig div 2) \<and>
         (\<exists>full. fft (map complex_of_real sig) = Inr full \<and> length full = length sig \<and>
            spectrum_transform (map complex_of_real sig) =
              Inr (take (length sig div 2) (map (\<lambda>v. v / of_nat (length sig)) full)))"
proof
  have w: "np_multiply sig window = Inr (map2 (*) sig window)"
    using assms(1) by (simp add: np_multiply_def)
  obtain filtered where f: "(case bpf of None \<Rightarrow> Inr (map2 (*) sig window)
       | Some f \<Rightarrow> band_pass_filter (map2 (*) sig window) (numerator f) (denominator f)) = Inr filtered"
    and len: "length filtered = length sig"
    using assms(1,3)
    by (auto simp: band_pass_filter_def lfilter_def well_formed_def length_lfilter_steps
        split: option.splits)
  from len assms(2) have "map complex_of_real filtered \<noteq> []" by auto
  from spectrum_transform_nonempty [OF this] len w f
  show "\<exists>ys. spectrum sig window bpf = Inr ys \<and> length ys = length sig div 2"
    by (auto simp: spectrum_def)
next
  from assms(2) have "map complex_of_real sig \<noteq> []" by simp
  from spectrum_transform_nonempty [OF this]
  show "\<exists>full. fft (map complex_of_real sig) = Inr full \<and> length full = length sig \<and>
            spectrum_transform (map complex_of_real sig) =
              Inr (take (length sig div 2) (map (\<lambda>v. v / of_nat (length sig)) full))"
    by simp
qed

theorem spectrum_length_witness:
  "(\<exists>ys. spectrum [1, 2, 3, 4, 5] [1, 1, 1, 1, 1]
            (Some \<lparr>numerator = [1, 1], denominator = [2, 1]\<rparr>) = Inr ys \<and> length ys = 2) \<and>
   (\<exists>ys. spectrum [1, 2, 3, 4, 5] [1, 1, 1, 1, 1] None = Inr ys \<and> length ys = 2)"
proof -
  let ?signal = "[1, 2, 3, 4, 5::real]" and ?window = "[1, 1, 1, 1, 1::real]"
  let ?filter = "Some \<lparr>numerator = [1, 1], denominator = [2, 1]\<rparr>"
  have len: "length ?signal div 2 = 2" by simp
  have "\<exists>ys. spectrum ?signal ?window ?filter = Inr ys \<and> length ys = length ?signal div 2"
    by (rule spectrum_length [THEN conjunct1]) (simp_all add: well_formed_def)
  moreover
  have "\<exists>ys. spectrum ?signal ?window None = Inr ys \<and> length ys = length ?signal div 2"
    by (rule spectrum_length [THEN conjunct1]) simp_all
  ultimately show ?thesis
    unfolding len by blast
qed

section \<open>Normalisation\<close>

lemma sum_list_cmod_scale:
  "(\<Sum>x\<leftarrow>map (\<lambda>x. x / complex_of_real c) v. (cmod x)\<^sup>2) = (\<Sum>x\<leftarrow>v. (cmod x)\<^sup>2) / c\<^sup>2"
  by (induction v) (simp_all add: norm_divide power_divide add_divide_distrib)

lemma linalg_norm_nonneg: "0 \<le> linalg_norm v"
  by (simp add: linalg_norm_def) (rule sum_list_nonneg, auto)

lemma linalg_norm_scale:
  "0 < c \<Longrightarrow> linalg_norm (map (\<lambda>x. x / complex_of_real c) v) = linalg_norm v / c"
proof -
  assume c: "0 < c"
  have "linalg_norm (map (\<lambda>x. x / complex_of_real c) v) = sqrt ((\<Sum>x\<leftarrow>v. (cmod x)\<^sup>2) / c\<^sup>2)"
    unfolding linalg_norm_def by (simp only: sum_list_cmod_scale)
  also have "\<dots> = linalg_norm v / c"
    using c by (simp add: linalg_norm_def real_sqrt_divide)
  finally show ?thesis .
qed

lemma linalg_norm_zeros: "linalg_norm (replicate n 0) = 0"
  by (induction n) (simp_all add: linalg_norm_def)

text \<open>
  Claim C5: normalising twice equals normalising once, and the all-zero spectrum (norm 0)
  is returned unchanged.  The entries are exact complex numbers, so the equality is
  exact and no tolerance is needed.
\<close>

theorem normalizorFFT_idempotent:
  "normalizorFFT (normalizorFFT v) = normalizorFFT v \<and>
   normalizorFFT (replicate n 0) = replicate n 0"
proof
  show "normalizorFFT (normalizorFFT v) = normalizorFFT v"
  proof (cases "linalg_norm v = 0")
    case True
    then show ?thesis by (simp add: normalizorFFT_def)
  next
    case False
    with linalg_norm_nonneg [of v] have pos: "0 < linalg_norm v" by simp
    let ?w = "map (\<lambda>x. x / complex_of_real (linalg_norm v)) v"
    have w: "normalizorFFT v = ?w"
      using False by (simp add: normalizorFFT_def)
    have "linalg_norm ?w = 1"
      using pos by (simp add: linalg_norm_scale)
    then have "normalizorFFT ?w = ?w"
      by (simp add: normalizorFFT_def Let_def)
    with w show ?thesis by simp
  qed
  show "normalizorFFT (replicate n 0) = replicate n 0"
    by (simp add: normalizorFFT_def linalg_norm_zeros)
qed


section \<open>Decibels\<close>

text \<open>
  Claim C6, as stated for every window, fails for a window whose sum is zero: the
  magnitude 0 scaled by \<open>2/0\<close> is NaN, and NaN passes the logarithm and the clip.
\<close>

theorem decibel_zero_window_counterexample:
  "convertingMagnitudeToDecibel ErrWarn [0] [1, - 1] = Inr [NaN]"
  by (simp add: convertingMagnitudeToDecibel_def np_divide_array_def np_divide_def
      np_log10_array_def)

text \<open>
  With floating-point errors raised instead of warned, the handler around \<open>log10\<close> runs
  for a zero magnitude, and the conversion ends in \<open>AttributeError\<close>.
\<close>

lemma decibel_handler_fails:
  "convertingMagnitudeToDecibel ErrRaise [0] [1] = Inl AttributeError"
  by (simp add: convertingMagnitudeToDecibel_def np_divide_array_def np_divide_def
      np_log10_array_def)

text \<open>
  Claim C6, amended: under NumPy's default floating-point error handling, for every
  spectrum and every window whose sum is not zero, the conversion scales each magnitude
  by \<open>2/sum(window)\<close>, applies \<open>20 * log10\<close> and clips at the floor -120; every entry
  whose magnitude is exactly 0 is mapped to -120, and for a window of positive sum every
  other entry is the larger of \<open>20 * log10(2 * magnitude / sum(window))\<close> and -120.
\<close>

theorem decibel_floor:
  assumes "sum_list window \<noteq> 0"
  shows "\<exists>ds. convertingMagnitudeToDecibel ErrWarn ffts window = Inr ds \<and>
           length ds = length ffts \<and>
           (\<forall>i<length ffts.
              ds ! i = np_clip_min (- 120)
                         (np_scale 20 (np_log10 (Finite (cmod (ffts ! i) * 2 / sum_list window)))) \<and>
              (ffts ! i = 0 \<longrightarrow> ds ! i = Finite (- 120)) \<and>
              (0 < sum_list window \<longrightarrow> ffts ! i \<noteq> 0 \<longrightarrow>
                 ds ! i = Finite (max (20 * log 10 (cmod (ffts ! i) * 2 / sum_list window)) (- 120))))"
  using assms
  by (auto simp: convertingMagnitudeToDecibel_def np_divide_array_def np_divide_def
      np_log10_array_def)

theorem decibel_floor_witness:
  "convertingMagnitudeToDecibel ErrWarn [0, 1] [1, 1] = Inr [Finite (- 120), Finite 0]"
proof -
  obtain ds where ds: "convertingMagnitudeToDecibel ErrWarn [0, 1] [1, 1] = Inr ds"
    and len: "length ds = length [0, 1::complex]"
    and nth: "\<forall>i<length [0, 1::complex].
              ds ! i = np_clip_min (- 120)
                         (np_scale 20 (np_log10 (Finite (cmod ([0, 1] ! i) * 2 / sum_list [1, 1]))))"
    using decibel_floor [of "[1, 1]" "[0, 1]"] by auto
  from nth have "ds ! 0 = Finite (- 120)" and "ds ! 1 = Finite 0"
    by (simp_all add: All_less_Suc)
  with len have "ds = [Finite (- 120), Finite 0]"
    by (simp add: list_eq_iff_nth_eq less_Suc_eq)
  with ds show ?thesis by simp
qed

section \<open>Band-pass filter design\<close>





section \<open>Workers\<close>

text \<open>
  Claim C10: for every channel id, constructing a \<open>PitchWorker\<close> raises \<open>TypeError\<close>:
  \<open>Worker.__init__\<close> is called with the keywords \<open>args\<close> and \<open>kwargs\<close>, which it does
  not accept, so its body, where the thread is started, is never reached and no object
  results.
\<close>

theorem PitchWorker_init_raises: "PitchWorker_init channel = Inl TypeError"
  by (simp add: PitchWorker_init_def Worker_init_def Worker_init_params_def py_bind_def)

lemma Subclass_init_succeeds:
  "Subclass_init channel =
     Inr \<lparr>channel_id = channel, queue_length = PInt 1, daemon = True, started = True\<rparr>"
  by (simp add: Subclass_init_def Worker_init_def Worker_init_params_def py_bind_def)



lemma step_AutoCorrelationWorker_raises:
  "step env (AutoCorrelationWorker sr ch) item = ([], Raise AttributeError)"
  by (simp add: spectral_names_def)




lemma run_append_raise:
  assumes "\<forall>x\<in>set pre. snd (step env w x) = Continue" and "snd (step env w item) = Raise e"
  shows "run env w (pre @ item # post) =
           (concat (map (\<lambda>x. fst (step env w x)) (pre @ [item])), Crashed e)"
  using assms
proof (induction pre)
  case Nil
  then show ?case by (cases "step env w item") simp
next
  case (Cons x pre)
  then show ?case by (cases "step env w x") simp
qed

lemma run_SpectrogramWorker_sentinel:
  "run env (SpectrogramWorker sr ch) (PNone # post) = ([], Exited)"
  by simp

lemma run_BandsWorker_sentinel:
  "run env (BandsWorker bands sr ch) (PNone # post) = ([], Crashed TypeError)"
  by simp

lemma run_HPSWorker_sentinel:
  assumes "pitch_from_hps env PNone sr 7 = Inr p" and "note_from_pitch env p = Inr k"
  shows "run env (HPSWorker sr ch) [PNone] =
           ([\<lparr>signal = ''pitch'', sender = ch, data = p\<rparr>,
             \<lparr>signal = ''key'', sender = ch, data = k\<rparr>], Waiting)"
  using assms by (simp add: publish_pitch_def)

text \<open>
  Claim C1, as stated, fails: the loops catch nothing.  The bands worker takes a string
  from its queue, \<open>abs\<close> raises \<open>TypeError\<close>, the thread ends, and the array behind it
  is never taken.
\<close>

theorem run_malformed_item_counterexample:
  "\<forall>env. run env (BandsWorker [''bass'' \<mapsto> (0, 2)] 44100 0) [PStr ''x'', PArray [1, 1]] =
           ([], Crashed TypeError)"
  by simp

text \<open>
  Claim C1, amended: for every worker variant, when the passes over the items \<open>pre\<close> end
  without an exception and the pass over the next item raises \<open>e\<close>, the exception leaves
  \<open>run\<close> and ends the thread: what was sent is what the passes over \<open>pre\<close> sent and what
  the failing pass sent before it raised, and the items behind it are never taken.
\<close>

theorem run_exception_propagates:
  assumes "\<forall>x\<in>set pre. snd (step env w x) = Continue" and "snd (step env w item) = Raise e"
  shows "run env w (pre @ item # post) =
           (concat (map (\<lambda>x. fst (step env w x)) (pre @ [item])), Crashed e)"
  using assms by (rule run_append_raise)

theorem run_exception_propagates_witness:
  "run \<lparr>pitch_from_zero_crossings =
           (\<lambda>s r. case s of PArray zs \<Rightarrow> Inr (PFloat 440) | _ \<Rightarrow> Inl TypeError),
        pitch_from_auto_correlation = (\<lambda>s r. Inl ValueError),
        pitch_from_hps = (\<lambda>s r k. Inl ValueError),
        pitch_from_fft = (\<lambda>s r. Inl ValueError),
        note_from_pitch = (\<lambda>p. Inr (PStr ''A'')),
        spectrogram_of = (\<lambda>s r. Inl ValueError),
        convolve_spectrum = (\<lambda>s. Inl ValueError)\<rparr>
     (ZeroCrossingWorker 44100 0) [PArray [1, - 1], PStr ''x'', PArray [1, - 1]] =
   ([\<lparr>signal = ''pitch'', sender = 0, data = PFloat 440\<rparr>,
     \<lparr>signal = ''key'', sender = 0, data = PStr ''A''\<rparr>], Crashed TypeError)"
  (is "run ?env ?w _ = _")
  using run_exception_propagates [where pre = "[PArray [1, - 1]]" and item = "PStr ''x''"
      and post = "[PArray [1, - 1]]" and w = ?w and e = TypeError and env = ?env]
  by (simp add: publish_pitch_def)


end
